theory Spec2Isabelle
  imports Main "HOL-Library.Word" "HOL-Library.Sublist" "HOL-Library.AList"
begin

section \<open>Errors\<close>

text \<open>
  The package reports failures as \<^verbatim>\<open>ErrMorph\<close> values built by \<^verbatim>\<open>newError\<close> from a
  fixed message or by \<^verbatim>\<open>newErrorf\<close> from a format and its arguments. The model keeps the
  constant that names the message or the format and the arguments, not the rendered text.
  A run-time panic of the Go program (nil dereference, reflection misuse, index out of
  range) is the value \<open>Panic\<close>; it leaves every enclosing call at once, as an error does.
\<close>

datatype errmsg = ErrNotAPointer | ErrNotAStruct | ErrInvalidTagName | ErrInvalidTransformer

datatype errfmt = ErrUnknownTagFmt | ErrInvalidDiveFmt | ErrUnexpectedValue
  | ErrReservedTagOverride | ErrInvalidParameters | ErrMissingParametersFmt

datatype error = ErrMorph errmsg | ErrMorphf errfmt "string list" | Panic string

definition newError :: "errmsg \<Rightarrow> error" where
  "newError message = ErrMorph message"

definition newErrorf :: "errfmt \<Rightarrow> string list \<Rightarrow> error" where
  "newErrorf messageFmt args = ErrMorphf messageFmt args"

section \<open>Tags\<close>

definition TagTrim :: string where "TagTrim = ''trim''"
definition TagLower :: string where "TagLower = ''lower''"
definition TagUpper :: string where "TagUpper = ''upper''"
definition TagTruncate :: string where "TagTruncate = ''truncate''"
definition TagCeil :: string where "TagCeil = ''ceil''"
definition TagFloor :: string where "TagFloor = ''floor''"
definition TagRound :: string where "TagRound = ''round''"
definition TagPrecision :: string where "TagPrecision = ''precision''"

definition TagDive :: string where "TagDive = ''dive''"
definition TagKeys :: string where "TagKeys = ''keys''"
definition TagExit :: string where "TagExit = ''exit''"
definition TagIgnore :: string where "TagIgnore = ''-''"

definition DefaultTag :: string where "DefaultTag = ''morph''"
definition TagSeparator :: char where "TagSeparator = CHR '',''"
definition ParamsSign :: char where "ParamsSign = CHR ''=''"

definition navigationalTags :: "string \<Rightarrow> bool" where
  "navigationalTags tag \<longleftrightarrow> tag \<in> set [TagDive, TagKeys, TagExit, TagIgnore]"

lemmas tag_defs = TagTrim_def TagLower_def TagUpper_def TagTruncate_def TagCeil_def
  TagFloor_def TagRound_def TagPrecision_def TagDive_def TagKeys_def TagExit_def
  TagIgnore_def DefaultTag_def TagSeparator_def ParamsSign_def

section \<open>The standard library functions the package calls\<close>

text \<open>
  A Go string is a sequence of bytes, here a \<^typ>\<open>string\<close> whose characters are the bytes.

  \<^verbatim>\<open>strings.TrimSpace\<close> removes the leading and the trailing white space, as Unicode
  defines it: a rune \<open>r\<close> with \<^verbatim>\<open>unicode.IsSpace(r)\<close>. Such a rune is decoded only from its
  own UTF-8 encoding, and an undecodable byte is the rune U+FFFD, which is not white space;
  so the leading white space is the longest run of the encodings listed in
  \<open>spaceRunes\<close> at the front of the bytes, and the trailing one the longest such run at
  the back.
\<close>

definition spaceRunes :: "string list" where
  "spaceRunes =
    [[CHR 0x09], [CHR 0x0A], [CHR 0x0B], [CHR 0x0C], [CHR 0x0D], [CHR 0x20],
     [CHR 0xC2, CHR 0x85], [CHR 0xC2, CHR 0xA0],
     [CHR 0xE1, CHR 0x9A, CHR 0x80],
     [CHR 0xE2, CHR 0x80, CHR 0x80], [CHR 0xE2, CHR 0x80, CHR 0x81],
     [CHR 0xE2, CHR 0x80, CHR 0x82], [CHR 0xE2, CHR 0x80, CHR 0x83],
     [CHR 0xE2, CHR 0x80, CHR 0x84], [CHR 0xE2, CHR 0x80, CHR 0x85],
     [CHR 0xE2, CHR 0x80, CHR 0x86], [CHR 0xE2, CHR 0x80, CHR 0x87],
     [CHR 0xE2, CHR 0x80, CHR 0x88], [CHR 0xE2, CHR 0x80, CHR 0x89],
     [CHR 0xE2, CHR 0x80, CHR 0x8A],
     [CHR 0xE2, CHR 0x80, CHR 0xA8], [CHR 0xE2, CHR 0x80, CHR 0xA9],
     [CHR 0xE2, CHR 0x80, CHR 0xAF],
     [CHR 0xE2, CHR 0x81, CHR 0x9F],
     [CHR 0xE3, CHR 0x80, CHR 0x80]]"

text \<open>The first of the encodings \<open>ps\<close> that the bytes \<open>s\<close> start with.\<close>

definition leading :: "string list \<Rightarrow> string \<Rightarrow> string option" where
  "leading ps s = find (\<lambda>p. p \<noteq> [] \<and> prefix p s) ps"

function trimLeft :: "string list \<Rightarrow> string \<Rightarrow> string" where
  "trimLeft ps s =
     (case leading ps s of
        None \<Rightarrow> s
      | Some p \<Rightarrow> trimLeft ps (drop (length p) s))"
  by pat_completeness auto
termination
proof (relation "measure (\<lambda>(ps, s). length s)")
  show "wf (measure (\<lambda>(ps, s). length s))" by simp
next
  fix ps :: "string list" and s p :: string
  assume "leading ps s = Some p"
  then have "p \<noteq> []" and "prefix p s"
    by (auto simp: leading_def dest: find_Some_iff[THEN iffD1])
  then have "s \<noteq> []" by auto
  with \<open>p \<noteq> []\<close> show "((ps, drop (length p) s), (ps, s)) \<in> measure (\<lambda>(ps, s). length s)"
    by (cases p) auto
qed

declare trimLeft.simps [simp del]

definition trimRight :: "string list \<Rightarrow> string \<Rightarrow> string" where
  "trimRight ps s = rev (trimLeft (map rev ps) (rev s))"

definition TrimSpace :: "string \<Rightarrow> string" where
  "TrimSpace s = trimRight spaceRunes (trimLeft spaceRunes s)"

text \<open>
  \<^verbatim>\<open>strconv.Atoi\<close> reads a decimal integer: an optional sign, then one digit or more,
  nothing else, and a value that fits the 64-bit \<^verbatim>\<open>int\<close>. Anything else is an error,
  here \<open>None\<close>.
\<close>

definition isDigit :: "char \<Rightarrow> bool" where
  "isDigit ch \<longleftrightarrow> of_char (CHR ''0'') \<le> (of_char ch :: nat) \<and> (of_char ch :: nat) \<le> of_char (CHR ''9'')"

fun digitsValue :: "nat \<Rightarrow> string \<Rightarrow> nat" where
  "digitsValue n [] = n"
| "digitsValue n (ch # s) = digitsValue (n * 10 + (of_char ch - of_char (CHR ''0''))) s"

definition Atoi :: "string \<Rightarrow> int option" where
  "Atoi s =
     (let neg = (s \<noteq> [] \<and> hd s = CHR ''-'');
          digits = (if s \<noteq> [] \<and> (hd s = CHR ''-'' \<or> hd s = CHR ''+'') then tl s else s)
      in if digits = [] \<or> \<not> list_all isDigit digits then None
         else let n = int (digitsValue 0 digits)
              in if neg then (if n > 2 ^ 63 then None else Some (- n))
                 else (if n \<ge> 2 ^ 63 then None else Some n))"

text \<open>
  \<^verbatim>\<open>strings.FieldsFunc(s, f)\<close> with \<open>f\<close> the test for the separator: the maximal runs of
  bytes other than the separator, in order, the empty ones dropped. The separator is an
  ASCII character, so no byte of another rune's encoding equals it.
\<close>

fun fieldsAcc :: "char \<Rightarrow> string \<Rightarrow> string \<Rightarrow> string list" where
  "fieldsAcc sep cur [] = (if cur = [] then [] else [cur])"
| "fieldsAcc sep cur (ch # s) =
     (if ch = sep then (if cur = [] then fieldsAcc sep [] s else cur # fieldsAcc sep [] s)
      else fieldsAcc sep (cur @ [ch]) s)"

definition FieldsFunc :: "string \<Rightarrow> char \<Rightarrow> string list" where
  "FieldsFunc s sep = fieldsAcc sep [] s"

text \<open>\<^verbatim>\<open>strings.IndexRune(s, r)\<close> for an ASCII rune: the index of its first byte, or \<open>-1\<close>.\<close>

fun indexFrom :: "int \<Rightarrow> string \<Rightarrow> char \<Rightarrow> int" where
  "indexFrom i [] r = - 1"
| "indexFrom i (ch # s) r = (if ch = r then i else indexFrom (i + 1) s r)"

definition IndexRune :: "string \<Rightarrow> char \<Rightarrow> int" where
  "IndexRune s r = indexFrom 0 s r"

text \<open>\<^verbatim>\<open>fmt.Sprintf("%d", n)\<close> for an index, which is not negative.\<close>

function showNat :: "nat \<Rightarrow> string" where
  "showNat n =
     (if n < 10 then [char_of (of_char (CHR ''0'') + n)]
      else showNat (n div 10) @ [char_of (of_char (CHR ''0'') + n mod 10)])"
  by pat_completeness auto
termination
  by (relation "measure id") auto

declare showNat.simps [simp del]

section \<open>Types and values as reflection shows them\<close>

text \<open>
  A struct type carries what the package reads from it: its package path and name (the
  cache key), the text \<^verbatim>\<open>Type.String()\<close> prints (the parameter key), and its fields, each
  with its export mark, its struct tag as key/value pairs, and its type.
\<close>

datatype ty = TBool | TInt | TString | TFloat32 | TFloat64 | TPtr ty | TInterface
  | TSlice ty | TArray nat ty | TMap ty ty | TStruct shape
and shape = Shape (PkgPath: string) (Name: string) (TypeString: string) (Fields: "field list")
and field = StructField (IsExported: bool) (Tag: "(string \<times> string) list") (Type: ty)

text \<open>
  A value is a tree: a pointer is modelled by what it points to, an interface by the value
  it holds, a slice, an array and a struct by their elements, a map by its entries in the
  order the run time iterates them. Two pointers to one variable are not modelled, nor are
  cyclic structures. A nil slice and a nil map are the empty ones.
\<close>

datatype val = VBool bool | VInt int | VString string | VFloat32 "32 word" | VFloat64 "64 word"
  | VNilPtr ty | VPtr val | VNilInterface | VInterface val
  | VSlice "val list" | VArray "val list" | VMap "(val \<times> val) list" | VStruct shape "val list"

datatype kind = KInvalid | KBool | KInt | KString | KFloat32 | KFloat64 | KPtr | KInterface
  | KSlice | KArray | KMap | KStruct

fun kindOf :: "val \<Rightarrow> kind" where
  "kindOf (VBool b) = KBool"
| "kindOf (VInt i) = KInt"
| "kindOf (VString s) = KString"
| "kindOf (VFloat32 f) = KFloat32"
| "kindOf (VFloat64 f) = KFloat64"
| "kindOf (VNilPtr t) = KPtr"
| "kindOf (VPtr v) = KPtr"
| "kindOf VNilInterface = KInterface"
| "kindOf (VInterface v) = KInterface"
| "kindOf (VSlice xs) = KSlice"
| "kindOf (VArray xs) = KArray"
| "kindOf (VMap es) = KMap"
| "kindOf (VStruct sh fs) = KStruct"

fun kindString :: "kind \<Rightarrow> string" where
  "kindString KInvalid = ''invalid''"
| "kindString KBool = ''bool''"
| "kindString KInt = ''int''"
| "kindString KString = ''string''"
| "kindString KFloat32 = ''float32''"
| "kindString KFloat64 = ''float64''"
| "kindString KPtr = ''ptr''"
| "kindString KInterface = ''interface''"
| "kindString KSlice = ''slice''"
| "kindString KArray = ''array''"
| "kindString KMap = ''map''"
| "kindString KStruct = ''struct''"

text \<open>The zero value of a type, which \<^verbatim>\<open>reflect.New(t).Elem()\<close> holds.\<close>

fun zero :: "ty \<Rightarrow> val" and zeroFields :: "field list \<Rightarrow> val list" where
  "zero TBool = VBool False"
| "zero TInt = VInt 0"
| "zero TString = VString []"
| "zero TFloat32 = VFloat32 0"
| "zero TFloat64 = VFloat64 0"
| "zero (TPtr t) = VNilPtr t"
| "zero TInterface = VNilInterface"
| "zero (TSlice t) = VSlice []"
| "zero (TArray n t) = VArray (replicate n (zero t))"
| "zero (TMap k t) = VMap []"
| "zero (TStruct (Shape p n s fs)) = VStruct (Shape p n s fs) (zeroFields fs)"
| "zeroFields [] = []"
| "zeroFields (StructField e tg t # fs) = zero t # zeroFields fs"

text \<open>\<^verbatim>\<open>StructTag.Get\<close>: the value under a key, the empty string when there is none.\<close>

definition tagGet :: "(string \<times> string) list \<Rightarrow> string \<Rightarrow> string" where
  "tagGet tg key = (case map_of tg key of None \<Rightarrow> [] | Some v \<Rightarrow> v)"

section \<open>Transformers\<close>

text \<open>
  The built-in transformers are the eight objects \<^verbatim>\<open>New\<close> creates. A transformer the
  caller registers is its two methods: \<^verbatim>\<open>Cache\<close>, from the parameters and the parameter key
  to an error or none, and \<^verbatim>\<open>Transform\<close>, from the value it is handed and the parameter
  key (a pointer, nil or not) to an error or none and the value it leaves there. It is
  taken to keep no state of its own and to change nothing but the value it is handed.
\<close>

datatype transformer = trimTransformer | toLowerTransformer | toUpperTransformer
  | truncateTransformer | ceilTransformer | floorTransformer | roundTransformer
  | precisionTransformer
  | customTransformer "string \<Rightarrow> string \<Rightarrow> error option"
      "val \<Rightarrow> string option \<Rightarrow> error option \<times> val"

text \<open>
  What the transformers take from the standard library and from floating-point
  arithmetic is a parameter of the model: the two case mappings, \<^verbatim>\<open>math.Ceil\<close>,
  \<^verbatim>\<open>math.Floor\<close>, \<^verbatim>\<open>math.Round\<close> on the bits of a \<^verbatim>\<open>float64\<close>, the value
  \<^verbatim>\<open>float64(int(f*p))/p\<close> for \<open>p\<close> the product of \<open>k\<close> tens, and the conversions between
  the two float widths that \<^verbatim>\<open>Value.Float\<close> and \<^verbatim>\<open>Value.SetFloat\<close> make.
\<close>

record extern =
  ToLower :: "string \<Rightarrow> string"
  ToUpper :: "string \<Rightarrow> string"
  Ceil :: "64 word \<Rightarrow> 64 word"
  Floor :: "64 word \<Rightarrow> 64 word"
  Round :: "64 word \<Rightarrow> 64 word"
  Scaled :: "nat \<Rightarrow> 64 word \<Rightarrow> 64 word"
  Widen :: "32 word \<Rightarrow> 64 word"
  Narrow :: "64 word \<Rightarrow> 32 word"

section \<open>Compiled chains and the cache\<close>

datatype tagChainCache = TagChainCache (tag: string) (params: string)
  (paramsKey: "string option") (transformer: "transformer option")
  (nextTag: "tagChainCache option") (keysChain: "tagChainCache option")

record fieldCache =
  index :: nat
  tags :: "tagChainCache option"

record structCache =
  fieldsLength :: nat
  fieldCaches :: "fieldCache list"

text \<open>
  The state one \<^verbatim>\<open>morpher\<close> owns: the fields of its \<^verbatim>\<open>cache\<close>, and the \<^verbatim>\<open>Values\<close>
  tables of the two built-in transformers that embed \<^verbatim>\<open>IntParameterTransformer\<close>. The
  lock is left out: a call runs to its end before the next one starts.
\<close>

record morpher =
  tagName :: string
  transformers :: "string \<rightharpoonup> transformer"
  structsCache :: "string \<rightharpoonup> structCache"
  truncateValues :: "string \<rightharpoonup> int"
  precisionValues :: "string \<rightharpoonup> int"

definition New :: morpher where
  "New = \<lparr> tagName = DefaultTag,
           transformers = [TagTrim \<mapsto> trimTransformer, TagLower \<mapsto> toLowerTransformer,
             TagUpper \<mapsto> toUpperTransformer, TagTruncate \<mapsto> truncateTransformer,
             TagCeil \<mapsto> ceilTransformer, TagFloor \<mapsto> floorTransformer,
             TagRound \<mapsto> roundTransformer, TagPrecision \<mapsto> precisionTransformer],
           structsCache = Map.empty,
           truncateValues = Map.empty,
           precisionValues = Map.empty \<rparr>"

subsection \<open>The Cache step\<close>

definition IntParameterTransformer_Cache ::
  "(string \<rightharpoonup> int) \<Rightarrow> string \<Rightarrow> string \<Rightarrow> error option \<times> (string \<rightharpoonup> int)" where
  "IntParameterTransformer_Cache Values ps key =
     (case Atoi ps of
        None \<Rightarrow> (Some (newErrorf ErrInvalidParameters [TagPrecision, ps]), Values)
      | Some v \<Rightarrow> (None, Values(key \<mapsto> v)))"

definition ParameterlessTransformer_Cache :: "string \<Rightarrow> string \<Rightarrow> error option" where
  "ParameterlessTransformer_Cache ps key = None"

fun Cache :: "transformer \<Rightarrow> morpher \<Rightarrow> string \<Rightarrow> string \<Rightarrow> error option \<times> morpher" where
  "Cache truncateTransformer c ps key =
     (case IntParameterTransformer_Cache (truncateValues c) ps key of
        (err, Values) \<Rightarrow> (err, c\<lparr>truncateValues := Values\<rparr>))"
| "Cache precisionTransformer c ps key =
     (case IntParameterTransformer_Cache (precisionValues c) ps key of
        (err, Values) \<Rightarrow> (err, c\<lparr>precisionValues := Values\<rparr>))"
| "Cache (customTransformer cacheFn transformFn) c ps key = (cacheFn ps key, c)"
| "Cache t c ps key = (ParameterlessTransformer_Cache ps key, c)"

subsection \<open>The Transform step\<close>

definition nilDereference :: error where
  "nilDereference = Panic ''invalid memory address or nil pointer dereference''"

definition trimTransform :: "val \<Rightarrow> error option \<times> val" where
  "trimTransform v =
     (case v of
        VString s \<Rightarrow> (None, VString (TrimSpace s))
      | _ \<Rightarrow> (Some (newErrorf ErrUnexpectedValue [TagTrim, kindString (kindOf v)]), v))"

definition toLowerTransform :: "extern \<Rightarrow> val \<Rightarrow> error option \<times> val" where
  "toLowerTransform X v =
     (case v of
        VString s \<Rightarrow> (None, VString (ToLower X s))
      | _ \<Rightarrow> (Some (newErrorf ErrUnexpectedValue [TagLower, kindString (kindOf v)]), v))"

definition toUpperTransform :: "extern \<Rightarrow> val \<Rightarrow> error option \<times> val" where
  "toUpperTransform X v =
     (case v of
        VString s \<Rightarrow> (None, VString (ToUpper X s))
      | _ \<Rightarrow> (Some (newErrorf ErrUnexpectedValue [TagUpper, kindString (kindOf v)]), v))"

definition truncateTransform :: "(string \<rightharpoonup> int) \<Rightarrow> val \<Rightarrow> string option \<Rightarrow> error option \<times> val" where
  "truncateTransform Values v key =
     (case v of
        VString s \<Rightarrow>
          (case key of
             None \<Rightarrow> (Some nilDereference, v)
           | Some k \<Rightarrow>
               (case Values k of
                  None \<Rightarrow> (Some (newErrorf ErrMissingParametersFmt [TagTruncate]), v)
                | Some limit \<Rightarrow>
                    if limit < 0 then (Some (newErrorf ErrInvalidParameters []), v)
                    else if int (length s) > limit then (None, VString (take (nat limit) s))
                    else (None, v)))
      | _ \<Rightarrow> (Some (newErrorf ErrUnexpectedValue [TagTruncate, kindString (kindOf v)]), v))"

text \<open>The three rounding transformers differ in the tag they name and the function they apply.\<close>

definition floatTransform :: "extern \<Rightarrow> string \<Rightarrow> (64 word \<Rightarrow> 64 word) \<Rightarrow> val \<Rightarrow> error option \<times> val" where
  "floatTransform X tg f v =
     (case v of
        VFloat64 x \<Rightarrow> (None, VFloat64 (f x))
      | VFloat32 x \<Rightarrow> (None, VFloat32 (Narrow X (f (Widen X x))))
      | _ \<Rightarrow> (Some (newErrorf ErrUnexpectedValue [tg, kindString (kindOf v)]), v))"

definition precisionTransform ::
  "extern \<Rightarrow> (string \<rightharpoonup> int) \<Rightarrow> val \<Rightarrow> string option \<Rightarrow> error option \<times> val" where
  "precisionTransform X Values v key =
     (if kindOf v \<noteq> KFloat64 \<and> kindOf v \<noteq> KFloat32
      then (Some (newErrorf ErrUnexpectedValue [TagPrecision, kindString (kindOf v)]), v)
      else case key of
             None \<Rightarrow> (Some nilDereference, v)
           | Some k \<Rightarrow>
               (case Values k of
                  None \<Rightarrow> (Some (newErrorf ErrMissingParametersFmt [TagPrecision]), v)
                | Some precision \<Rightarrow> floatTransform X TagPrecision (Scaled X (nat precision)) v))"

fun Transform :: "extern \<Rightarrow> morpher \<Rightarrow> transformer \<Rightarrow> val \<Rightarrow> string option \<Rightarrow> error option \<times> val" where
  "Transform X c trimTransformer v key = trimTransform v"
| "Transform X c toLowerTransformer v key = toLowerTransform X v"
| "Transform X c toUpperTransformer v key = toUpperTransform X v"
| "Transform X c truncateTransformer v key = truncateTransform (truncateValues c) v key"
| "Transform X c ceilTransformer v key = floatTransform X TagCeil (Ceil X) v"
| "Transform X c floorTransformer v key = floatTransform X TagFloor (Floor X) v"
| "Transform X c roundTransformer v key = floatTransform X TagRound (Round X) v"
| "Transform X c precisionTransformer v key = precisionTransform X (precisionValues c) v key"
| "Transform X c (customTransformer cacheFn transformFn) v key = transformFn v key"

subsection \<open>Compiling an annotation\<close>

definition getParamsKey :: "string \<Rightarrow> nat \<Rightarrow> string" where
  "getParamsKey valueType fieldIndex = valueType @ ''.'' @ showNat fieldIndex"

definition buildTagCache :: "morpher \<Rightarrow> string \<Rightarrow> string \<Rightarrow> (error + tagChainCache) \<times> morpher" where
  "buildTagCache c tag0 pk =
     (let equalSignIndex = IndexRune tag0 ParamsSign;
          ps = (if equalSignIndex > 0 then drop (nat (equalSignIndex + 1)) tag0 else []);
          tg = (if equalSignIndex > 0 then take (nat equalSignIndex) tag0 else tag0)
      in case transformers c tg of
           None \<Rightarrow>
             if \<not> navigationalTags tg then (Inl (newErrorf ErrUnknownTagFmt [tg]), c)
             else (Inr (TagChainCache tg ps None None None None), c)
         | Some tr \<Rightarrow>
             (case Cache tr c ps pk of
                (Some err, c') \<Rightarrow> (Inl err, c')
              | (None, c') \<Rightarrow> (Inr (TagChainCache tg ps None (Some tr) None None), c')))"

fun setNext :: "tagChainCache \<Rightarrow> tagChainCache option \<Rightarrow> tagChainCache" where
  "setNext (TagChainCache tg ps pk tr nx kc) nx' = TagChainCache tg ps pk tr nx' kc"

fun setKeysChain :: "tagChainCache \<Rightarrow> tagChainCache option \<Rightarrow> tagChainCache" where
  "setKeysChain (TagChainCache tg ps pk tr nx kc) kc' = TagChainCache tg ps pk tr nx kc'"

fun setParamsKey :: "tagChainCache \<Rightarrow> string option \<Rightarrow> tagChainCache" where
  "setParamsKey (TagChainCache tg ps pk tr nx kc) pk' = TagChainCache tg ps pk' tr nx kc"

text \<open>
  The inner loop of \<^verbatim>\<open>buildTagsCache\<close>, from the token after \<^verbatim>\<open>keys\<close>: it links the
  tokens into the key chain until it meets \<^verbatim>\<open>exit\<close> or the tokens end, and returns the
  chain with the tokens from where it stopped, the \<^verbatim>\<open>exit\<close> it met among them.
\<close>

fun buildKeyTags ::
  "morpher \<Rightarrow> string list \<Rightarrow> string \<Rightarrow> (error + tagChainCache option \<times> string list) \<times> morpher" where
  "buildKeyTags c [] pk = (Inr (None, []), c)"
| "buildKeyTags c (keyTag # allTags) pk =
     (if keyTag = TagExit then (Inr (None, keyTag # allTags), c)
      else case buildTagCache c keyTag pk of
             (Inl errBuild, c1) \<Rightarrow> (Inl errBuild, c1)
           | (Inr newKeyTagCache, c1) \<Rightarrow>
               (case buildKeyTags c1 allTags pk of
                  (Inl errBuild, c2) \<Rightarrow> (Inl errBuild, c2)
                | (Inr (chain, rest), c2) \<Rightarrow> (Inr (Some (setNext newKeyTagCache chain), rest), c2)))"

lemma buildKeyTags_rest:
  "buildKeyTags c allTags pk = (Inr (chain, rest), c') \<Longrightarrow> length rest \<le> length allTags"
  by (induction allTags arbitrary: c chain rest c')
    (fastforce split: if_splits prod.splits sum.splits)+

text \<open>
  The outer loop, from the token at the loop index. After the inner loop the index is
  advanced once more, which steps over the \<^verbatim>\<open>exit\<close> that ended it.
\<close>

function buildTags :: "morpher \<Rightarrow> string list \<Rightarrow> string \<Rightarrow> (error + tagChainCache option) \<times> morpher" where
  "buildTags c [] pk = (Inr None, c)"
| "buildTags c (tg # allTags) pk =
     (case buildTagCache c tg pk of
        (Inl err, c1) \<Rightarrow> (Inl err, c1)
      | (Inr newTagCache, c1) \<Rightarrow>
          if tg = TagKeys \<and> allTags \<noteq> [] then
            (case buildKeyTags c1 allTags pk of
               (Inl errBuild, c2) \<Rightarrow> (Inl errBuild, c2)
             | (Inr (keyChain, rest), c2) \<Rightarrow>
                 (case buildTags c2 (drop 1 rest) pk of
                    (Inl err, c3) \<Rightarrow> (Inl err, c3)
                  | (Inr chain, c3) \<Rightarrow>
                      (Inr (Some (setNext (setKeysChain newTagCache keyChain) chain)), c3)))
          else
            (case buildTags c1 allTags pk of
               (Inl err, c3) \<Rightarrow> (Inl err, c3)
             | (Inr chain, c3) \<Rightarrow> (Inr (Some (setNext newTagCache chain)), c3)))"
  by pat_completeness auto
termination
  by (relation "measure (\<lambda>(c, allTags, pk). length allTags)")
    (auto dest: buildKeyTags_rest [OF sym])

definition buildTagsCache :: "morpher \<Rightarrow> string \<Rightarrow> string \<Rightarrow> (error + tagChainCache option) \<times> morpher" where
  "buildTagsCache c tagsRaw pk = buildTags c (FieldsFunc tagsRaw TagSeparator) pk"

subsection \<open>Building and caching a shape descriptor\<close>

text \<open>The loop of \<^verbatim>\<open>buildStructCache\<close>, from field \<open>i\<close> on.\<close>

fun buildFields ::
  "morpher \<Rightarrow> string \<Rightarrow> nat \<Rightarrow> field list \<Rightarrow> (error + fieldCache list) \<times> morpher" where
  "buildFields c ts i [] = (Inr [], c)"
| "buildFields c ts i (fld # flds) =
     (if \<not> IsExported fld then buildFields c ts (Suc i) flds
      else let tagsRaw = tagGet (Tag fld) (tagName c)
           in if tagsRaw = TagIgnore then buildFields c ts (Suc i) flds
              else case (if length tagsRaw > 0
                         then (let pk = getParamsKey ts i
                               in case buildTagsCache c tagsRaw pk of
                                    (Inl err, c1) \<Rightarrow> (Inl err, c1)
                                  | (Inr tagsCache, c1) \<Rightarrow>
                                      (Inr (map_option (\<lambda>t. setParamsKey t (Some pk)) tagsCache), c1))
                         else (Inr None, c)) of
                     (Inl err, c1) \<Rightarrow> (Inl err, c1)
                   | (Inr tgs, c1) \<Rightarrow>
                       (case buildFields c1 ts (Suc i) flds of
                          (Inl err, c2) \<Rightarrow> (Inl err, c2)
                        | (Inr rest, c2) \<Rightarrow> (Inr (\<lparr>index = i, tags = tgs\<rparr> # rest), c2)))"

definition buildStructCache :: "morpher \<Rightarrow> shape \<Rightarrow> (error + structCache) \<times> morpher" where
  "buildStructCache c sh =
     (case buildFields c (TypeString sh) 0 (Fields sh) of
        (Inl err, c1) \<Rightarrow> (Inl err, c1)
      | (Inr flds, c1) \<Rightarrow> (Inr \<lparr>fieldsLength = length flds, fieldCaches = flds\<rparr>, c1))"

definition cacheKey :: "shape \<Rightarrow> string" where
  "cacheKey sh = PkgPath sh @ ''/'' @ Name sh"

definition getStructCache :: "morpher \<Rightarrow> shape \<Rightarrow> (error + structCache) \<times> morpher" where
  "getStructCache c sh =
     (let key = cacheKey sh
      in case structsCache c key of
           Some strCache \<Rightarrow> (Inr strCache, c)
         | None \<Rightarrow>
             (case buildStructCache c sh of
                (Inl err, c1) \<Rightarrow> (Inl err, c1)
              | (Inr newCache, c1) \<Rightarrow>
                  (Inr newCache, c1\<lparr>structsCache := (structsCache c1)(key \<mapsto> newCache)\<rparr>)))"

subsection \<open>Registration\<close>

definition Register :: "morpher \<Rightarrow> string \<Rightarrow> transformer option \<Rightarrow> error option \<times> morpher" where
  "Register c tag0 tr =
     (let tg = TrimSpace tag0
      in if length tg = 0 then (Some (newError ErrInvalidTagName), c)
         else if navigationalTags tg then (Some (newErrorf ErrReservedTagOverride [tg]), c)
         else case tr of
                None \<Rightarrow> (Some (newError ErrInvalidTransformer), c)
              | Some t \<Rightarrow> (None, c\<lparr>transformers := (transformers c)(tg \<mapsto> t)\<rparr>))"

section \<open>The traversal\<close>

text \<open>
  A \<^verbatim>\<open>reflect.Value\<close> is a handle: whether it can be addressed (\<^verbatim>\<open>CanAddr\<close>) and what it
  holds. A call returns the error, if any, what the handle's storage holds afterwards
  (with what is reached from it through pointers, slices and maps), and the state of the
  morpher. The mark reflection puts on a value reached through an unexported field is not
  modelled: a descriptor lists exported fields only.
\<close>

type_synonym handle = "bool \<times> val"

type_synonym outcome = "error option \<times> val \<times> morpher"

text \<open>
  \<^verbatim>\<open>getActualValue\<close> follows pointers and interfaces down to a value that is neither, or
  to a nil one. What a pointer points to can be addressed; what an interface holds cannot.
  \<open>putActualValue\<close> is its inverse on the tree: the wrappers of the first value around
  the second.
\<close>

fun getActualValue :: "handle \<Rightarrow> handle" where
  "getActualValue (a, VPtr v) = getActualValue (True, v)"
| "getActualValue (a, VInterface v) = getActualValue (False, v)"
| "getActualValue (a, v) = (a, v)"

fun putActualValue :: "val \<Rightarrow> val \<Rightarrow> val" where
  "putActualValue (VPtr v) w = VPtr (putActualValue v w)"
| "putActualValue (VInterface v) w = VInterface (putActualValue v w)"
| "putActualValue v w = w"

text \<open>
  \<^verbatim>\<open>getAssignableValue\<close> hands out the value the transformers work on: for a pointer a
  new variable of the target type, set to the target unless the pointer is nil; for a value
  that cannot be addressed a new variable set to it; otherwise the value itself.
  \<open>sharesStorage\<close> tells the third case, in which a change of the working value is a
  change of the value itself.
\<close>

definition getAssignableValue :: "handle \<Rightarrow> kind \<Rightarrow> val" where
  "getAssignableValue h k =
     (case h of (a, v) \<Rightarrow>
        if k = KPtr then (case v of VNilPtr t \<Rightarrow> zero t | VPtr w \<Rightarrow> w | _ \<Rightarrow> v)
        else v)"

definition sharesStorage :: "handle \<Rightarrow> kind \<Rightarrow> bool" where
  "sharesStorage h k \<longleftrightarrow> k \<noteq> KPtr \<and> fst h"

text \<open>
  \<^verbatim>\<open>getAssignableValue\<close> returns the address of its own local variable, so the pointer
  \<^verbatim>\<open>newValue\<close> that \<^verbatim>\<open>morphField\<close> receives is never the pointer \<^verbatim>\<open>actualValue\<close> it passed.
\<close>

definition newValue_is_actualValue :: bool where
  "newValue_is_actualValue = False"

definition assignValue :: "handle \<Rightarrow> val \<Rightarrow> kind \<Rightarrow> error option \<times> val" where
  "assignValue target v targetKind =
     (case target of (a, t) \<Rightarrow>
        if targetKind = KPtr then
          (if a then (None, VPtr v)
           else (Some (Panic ''reflect.Value.Set using unaddressable value''), t))
        else if \<not> a then (Some (Panic ''reflect.Value.Set using unaddressable value''), t)
        else (None, t))"

definition shouldMorphKeys :: "tagChainCache option \<Rightarrow> bool" where
  "shouldMorphKeys tgs =
     (case tgs of None \<Rightarrow> False | Some t \<Rightarrow> tag t = TagKeys \<and> keysChain t \<noteq> None)"

text \<open>
  The functions of the traversal call each other, and a value built by a transformer may
  be walked again, so \<open>morphField\<close> is defined with fuel: the number of nested calls of
  \<^verbatim>\<open>morphField\<close> allowed. \<open>None\<close> says the fuel ran out. The other functions take the
  \<^verbatim>\<open>morphField\<close> they call, with the fuel it has left, as their first argument \<open>mf\<close>.

  \<open>morphFields\<close> is the loop of \<^verbatim>\<open>morphStruct\<close>, \<open>walk\<close> the loop of \<^verbatim>\<open>morphField\<close> over
  the chain, \<open>morphItems\<close> the loop of \<^verbatim>\<open>morphCollection\<close>, \<open>morphEntries\<close> the loop of
  \<^verbatim>\<open>morphMap\<close> over the keys \<^verbatim>\<open>MapKeys\<close> returned, with the map as it stands.
  \<open>walk\<close> carries the working value and the actual value; they stay the same value
  when they share storage.
\<close>

type_synonym fieldMorpher = "morpher \<Rightarrow> handle \<Rightarrow> tagChainCache option \<Rightarrow> outcome option"

fun morphItems :: "fieldMorpher \<Rightarrow> morpher \<Rightarrow> bool \<Rightarrow> tagChainCache option \<Rightarrow> val list
    \<Rightarrow> (error option \<times> val list \<times> morpher) option" where
  "morphItems mf c ea tgs [] = Some (None, [], c)"
| "morphItems mf c ea tgs (x # xs) =
     (case mf c (ea, x) tgs of
        None \<Rightarrow> None
      | Some (Some err, x', c1) \<Rightarrow> Some (Some err, x' # xs, c1)
      | Some (None, x', c1) \<Rightarrow>
          (case morphItems mf c1 ea tgs xs of
             None \<Rightarrow> None
           | Some (err, xs', c2) \<Rightarrow> Some (err, x' # xs', c2)))"

definition morphCollection :: "fieldMorpher \<Rightarrow> morpher \<Rightarrow> handle \<Rightarrow> tagChainCache option \<Rightarrow> outcome option" where
  "morphCollection mf c sliceValue tgs =
     (case sliceValue of
        (aa, VSlice xs) \<Rightarrow>
          (case morphItems mf c True tgs xs of
             None \<Rightarrow> None
           | Some (err, xs', c1) \<Rightarrow> Some (err, VSlice xs', c1))
      | (aa, VArray xs) \<Rightarrow>
          (case morphItems mf c aa tgs xs of
             None \<Rightarrow> None
           | Some (err, xs', c1) \<Rightarrow> Some (err, VArray xs', c1))
      | (aa, v) \<Rightarrow>
          Some (Some (Panic ''reflect: call of reflect.Value.Len on a value without length''), v, c))"

definition morphMapKey :: "fieldMorpher \<Rightarrow> morpher \<Rightarrow> val \<Rightarrow> tagChainCache option \<Rightarrow> outcome option" where
  "morphMapKey mf c key tgs = mf c (True, key) tgs"

fun morphEntries :: "fieldMorpher \<Rightarrow> morpher \<Rightarrow> tagChainCache option \<Rightarrow> val list
    \<Rightarrow> (val \<times> val) list \<Rightarrow> (error option \<times> (val \<times> val) list \<times> morpher) option" where
  "morphEntries mf c tgs [] es = Some (None, es, c)"
| "morphEntries mf c tgs (key # keys) es =
     (case map_of es key of
        None \<Rightarrow> Some (Some (Panic ''reflect: call of reflect.Value.Set on zero Value''), es, c)
      | Some morphedValue \<Rightarrow>
          if shouldMorphKeys tgs then
            (case morphMapKey mf c key (keysChain (the tgs)) of
               None \<Rightarrow> None
             | Some (Some err, key', c1) \<Rightarrow> Some (Some err, AList.delete key es, c1)
             | Some (None, key', c1) \<Rightarrow>
                 (case mf c1 (True, morphedValue) (nextTag (the tgs)) of
                    None \<Rightarrow> None
                  | Some (Some err, v', c2) \<Rightarrow> Some (Some err, AList.delete key es, c2)
                  | Some (None, v', c2) \<Rightarrow>
                      morphEntries mf c2 tgs keys (AList.update key' v' (AList.delete key es))))
          else
            (case mf c (True, morphedValue) tgs of
               None \<Rightarrow> None
             | Some (Some err, v', c1) \<Rightarrow> Some (Some err, es, c1)
             | Some (None, v', c1) \<Rightarrow> morphEntries mf c1 tgs keys (AList.update key v' es)))"

definition morphMap :: "fieldMorpher \<Rightarrow> morpher \<Rightarrow> handle \<Rightarrow> tagChainCache option \<Rightarrow> outcome option" where
  "morphMap mf c mapValue tgs =
     (case mapValue of
        (aa, VMap es) \<Rightarrow>
          (case morphEntries mf c tgs (map fst es) es of
             None \<Rightarrow> None
           | Some (err, es', c1) \<Rightarrow> Some (err, VMap es', c1))
      | (aa, v) \<Rightarrow>
          Some (Some (Panic ''reflect: call of reflect.Value.MapKeys on non-map Value''), v, c))"

definition dive :: "fieldMorpher \<Rightarrow> morpher \<Rightarrow> handle \<Rightarrow> kind \<Rightarrow> tagChainCache option \<Rightarrow> outcome option" where
  "dive mf c actualValue actualKind tgs =
     (if actualKind = KSlice \<or> actualKind = KArray then morphCollection mf c actualValue tgs
      else if actualKind = KMap then morphMap mf c actualValue tgs
      else Some (Some (newErrorf ErrInvalidDiveFmt [kindString actualKind]), snd actualValue, c))"

fun walk :: "fieldMorpher \<Rightarrow> extern \<Rightarrow> morpher \<Rightarrow> bool \<Rightarrow> kind \<Rightarrow> bool \<Rightarrow> val \<times> val
    \<Rightarrow> tagChainCache option \<Rightarrow> (error option \<times> (val \<times> val) \<times> morpher) option" where
  "walk mf X c shared k aa (newValue, actualValue) None = Some (None, (newValue, actualValue), c)"
| "walk mf X c shared k aa (newValue, actualValue) (Some (TagChainCache tg ps pk tr nx kc)) =
     (if tg = TagDive then
        (case dive mf c (aa, actualValue) k nx of
           None \<Rightarrow> None
         | Some (err, v', c1) \<Rightarrow> Some (err, (if shared then v' else newValue, v'), c1))
      else case tr of
             None \<Rightarrow> walk mf X c shared k aa (newValue, actualValue) nx
           | Some t \<Rightarrow>
               (case Transform X c t newValue pk of
                  (Some err, v') \<Rightarrow> Some (Some err, (v', if shared then v' else actualValue), c)
                | (None, v') \<Rightarrow>
                    walk mf X c shared k aa (v', if shared then v' else actualValue) nx))"

fun morphFields :: "fieldMorpher \<Rightarrow> morpher \<Rightarrow> bool \<Rightarrow> val list \<Rightarrow> fieldCache list
    \<Rightarrow> (error option \<times> val list \<times> morpher) option" where
  "morphFields mf c a fs [] = Some (None, fs, c)"
| "morphFields mf c a fs (fc # fcs) =
     (if index fc < length fs then
        (case mf c (a, fs ! index fc) (tags fc) of
           None \<Rightarrow> None
         | Some (Some err, v', c1) \<Rightarrow> Some (Some err, fs[index fc := v'], c1)
         | Some (None, v', c1) \<Rightarrow> morphFields mf c1 a (fs[index fc := v']) fcs)
      else Some (Some (Panic ''reflect: Field index out of range''), fs, c))"

definition morphStruct :: "fieldMorpher \<Rightarrow> morpher \<Rightarrow> handle \<Rightarrow> outcome option" where
  "morphStruct mf c structValue =
     (case structValue of
        (a, VStruct sh fs) \<Rightarrow>
          (case getStructCache c sh of
             (Inl err, c1) \<Rightarrow> Some (Some err, VStruct sh fs, c1)
           | (Inr strCache, c1) \<Rightarrow>
               (case morphFields mf c1 a fs (fieldCaches strCache) of
                  None \<Rightarrow> None
                | Some (err, fs', c2) \<Rightarrow> Some (err, VStruct sh fs', c2)))
      | (a, v) \<Rightarrow>
          Some (Some (Panic ''reflect: call of reflect.Value.NumField on non-struct Value''), v, c))"

text \<open>The body of \<^verbatim>\<open>morphField\<close>, with the \<^verbatim>\<open>morphField\<close> that the calls inside it reach.\<close>

definition morphFieldBody :: "fieldMorpher \<Rightarrow> extern \<Rightarrow> morpher \<Rightarrow> handle \<Rightarrow> tagChainCache option \<Rightarrow> outcome option" where
  "morphFieldBody mf X c fieldValue tgs =
     (case getActualValue fieldValue of (aa, actualValue) \<Rightarrow>
        let actualKind = kindOf actualValue
        in if actualKind = KStruct then
             (case morphStruct mf c (aa, actualValue) of
                None \<Rightarrow> None
              | Some (err, v', c1) \<Rightarrow> Some (err, putActualValue (snd fieldValue) v', c1))
           else
             (case walk mf X c (sharesStorage (aa, actualValue) actualKind) actualKind aa
                     (getAssignableValue (aa, actualValue) actualKind, actualValue) tgs of
                None \<Rightarrow> None
              | Some (err, (newValue, actualValue'), c1) \<Rightarrow>
                  if err \<noteq> None \<or> \<not> newValue_is_actualValue
                  then Some (err, putActualValue (snd fieldValue) actualValue', c1)
                  else (case assignValue (aa, actualValue') newValue actualKind of
                          (err', v') \<Rightarrow> Some (err', putActualValue (snd fieldValue) v', c1))))"

primrec morphField :: "nat \<Rightarrow> extern \<Rightarrow> fieldMorpher" where
  "morphField 0 X = (\<lambda>c fieldValue tgs. None)"
| "morphField (Suc n) X = morphFieldBody (morphField n X) X"

text \<open>
  The entry point. Its argument is an interface value: nothing (\<^verbatim>\<open>nil\<close>) or a value.
  It returns the error and the argument as the call leaves it.
\<close>

definition Struct ::
  "nat \<Rightarrow> extern \<Rightarrow> morpher \<Rightarrow> val option \<Rightarrow> (error option \<times> val option \<times> morpher) option" where
  "Struct n X c structPtr =
     (case structPtr of
        None \<Rightarrow> Some (Some (newError ErrNotAPointer), structPtr, c)
      | Some dataValue \<Rightarrow>
          if kindOf dataValue \<noteq> KPtr then Some (Some (newError ErrNotAPointer), structPtr, c)
          else (case dataValue of
                  VPtr v \<Rightarrow>
                    if kindOf v \<noteq> KStruct then Some (Some (newError ErrNotAStruct), structPtr, c)
                    else (case morphStruct (morphField n X) c (True, v) of
                            None \<Rightarrow> None
                          | Some (err, v', c1) \<Rightarrow> Some (err, Some (VPtr v'), c1))
                | _ \<Rightarrow> Some (Some (newError ErrNotAStruct), structPtr, c)))"

section \<open>Inputs of the examples\<close>

text \<open>A stand-in for the library functions the examples do not reach.\<close>

definition noExtern :: extern where
  "noExtern = \<lparr>ToLower = id, ToUpper = id, Ceil = id, Floor = id, Round = id,
     Scaled = (\<lambda>k. id), Widen = (\<lambda>w. 0), Narrow = (\<lambda>w. 0)\<rparr>"

section \<open>A chain as a list of instructions\<close>

text \<open>
  To say what a compiled chain is: \<open>buildEach\<close> compiles the tokens one by one with
  \<^verbatim>\<open>buildTagCache\<close>, in order, each from the state the one before left, and stops at the
  first that fails; \<open>link\<close> links instructions through their \<^verbatim>\<open>next\<close> fields in
  front of a chain.
\<close>

fun buildEach :: "morpher \<Rightarrow> string list \<Rightarrow> string \<Rightarrow> (error + tagChainCache list) \<times> morpher" where
  "buildEach c [] pk = (Inr [], c)"
| "buildEach c (tg # tgs) pk =
     (case buildTagCache c tg pk of
        (Inl err, c1) \<Rightarrow> (Inl err, c1)
      | (Inr t, c1) \<Rightarrow>
          (case buildEach c1 tgs pk of
             (Inl err, c2) \<Rightarrow> (Inl err, c2)
           | (Inr ts, c2) \<Rightarrow> (Inr (t # ts), c2)))"

fun link :: "tagChainCache list \<Rightarrow> tagChainCache option \<Rightarrow> tagChainCache option" where
  "link [] chain = chain"
| "link (t # ts) chain = Some (setNext t (link ts chain))"

text \<open>The chain compiled from \<^verbatim>\<open>trim\<close>, as it stands behind another instruction.\<close>

definition trimChain :: "tagChainCache option" where
  "trimChain = Some (TagChainCache TagTrim [] None (Some trimTransformer) None None)"





text \<open>
  Struct types without a name: their package path and their name are empty. The text
  \<^verbatim>\<open>Type.String()\<close> prints for them is shortened here. Then the descriptors
  \<^verbatim>\<open>buildStructCache\<close> builds from them.
\<close>

definition anonA :: shape where
  "anonA = Shape [] [] ''struct { A string }'' [StructField True [(''morph'', ''trim'')] TString]"

definition anonB :: shape where
  "anonB = Shape [] [] ''struct { B string }'' [StructField True [] TString]"

definition anonInner :: shape where
  "anonInner = Shape [] [] ''struct { X string }'' [StructField True [] TString]"

definition anonOuter :: shape where
  "anonOuter = Shape [] [] ''struct { A struct { X string }; B string }''
     [StructField True [] (TStruct anonInner), StructField True [] TString]"

definition descA :: structCache where
  "descA = \<lparr>fieldsLength = 1, fieldCaches = [\<lparr>index = 0,
     tags = Some (TagChainCache TagTrim [] (Some ''struct { A string }.0'')
       (Some trimTransformer) None None)\<rparr>]\<rparr>"

definition descB :: structCache where
  "descB = \<lparr>fieldsLength = 1, fieldCaches = [\<lparr>index = 0, tags = None\<rparr>]\<rparr>"

definition descOuter :: structCache where
  "descOuter = \<lparr>fieldsLength = 2,
     fieldCaches = [\<lparr>index = 0, tags = None\<rparr>, \<lparr>index = 1, tags = None\<rparr>]\<rparr>"

section \<open>Trimming white space\<close>

lemma leading_None_iff: "leading ps s = None \<longleftrightarrow> (\<forall>p \<in> set ps. p = [] \<or> \<not> prefix p s)"
  by (auto simp: leading_def find_None_iff)

lemma trimLeft_fixed: "leading ps s = None \<Longrightarrow> trimLeft ps s = s"
  by (subst trimLeft.simps) simp

lemma leading_trimLeft: "leading ps (trimLeft ps s) = None"
proof (induction ps s rule: trimLeft.induct)
  case (1 ps s)
  then show ?case
    by (subst trimLeft.simps) (simp split: option.splits)
qed

lemma trimLeft_drop: "\<exists>k. trimLeft ps s = drop k s"
proof (induction ps s rule: trimLeft.induct)
  case (1 ps s)
  show ?case
  proof (cases "leading ps s")
    case None
    then have "trimLeft ps s = drop 0 s" by (simp add: trimLeft_fixed)
    then show ?thesis by blast
  next
    case (Some p)
    with 1 obtain k where "trimLeft ps (drop (length p) s) = drop k (drop (length p) s)" by blast
    with Some have "trimLeft ps s = drop (k + length p) s"
      by (subst trimLeft.simps) (simp add: add.commute)
    then show ?thesis by blast
  qed
qed

lemma trimRight_prefix: "prefix (trimRight ps s) s"
proof -
  obtain k where "trimLeft (map rev ps) (rev s) = drop k (rev s)"
    using trimLeft_drop by blast
  then have "trimRight ps s = take (length s - k) s"
    by (simp add: trimRight_def rev_drop)
  then show ?thesis by (simp add: take_is_prefix)
qed

lemma leading_prefix: "leading ps s = None \<Longrightarrow> prefix t s \<Longrightarrow> leading ps t = None"
  unfolding leading_None_iff using prefix_order.trans by blast

lemma trimRight_trimRight: "trimRight ps (trimRight ps s) = trimRight ps s"
  by (simp add: trimRight_def trimLeft_fixed leading_trimLeft)

text \<open>
  Trimming the back of a string leaves a prefix of it, so it uncovers no white space at
  the front: a trimmed string is trimmed.
\<close>

lemma TrimSpace_idem: "TrimSpace (TrimSpace s) = TrimSpace s"
proof -
  let ?t = "trimLeft spaceRunes s"
  have "leading spaceRunes (trimRight spaceRunes ?t) = None"
    using leading_trimLeft trimRight_prefix by (rule leading_prefix)
  then have "trimLeft spaceRunes (trimRight spaceRunes ?t) = trimRight spaceRunes ?t"
    by (rule trimLeft_fixed)
  then show ?thesis by (simp add: TrimSpace_def trimRight_trimRight)
qed

text \<open>
  Claim C9. For every string value, the trim transformer applied to the value it has
  produced gives the same outcome (no error, the same string) as it gave the first time.
\<close>

theorem C9_trim_idempotent:
  "Transform X c trimTransformer (snd (Transform X c trimTransformer (VString s) key)) key'
     = Transform X c trimTransformer (VString s) key"
  by (simp add: trimTransform_def TrimSpace_idem)

section \<open>The Cache step of the integer parameters\<close>

lemma Atoi_minus_one: "Atoi ''-1'' = Some (- 1)"
  by (simp add: Atoi_def isDigit_def)

lemma Atoi_baba: "Atoi ''baba'' = None"
  by (simp add: Atoi_def isDigit_def)

text \<open>
  Claim C4, as the claim states it, fails: the Cache step of \<^verbatim>\<open>truncate\<close> accepts the
  parameter \<^verbatim>\<open>-1\<close>.
\<close>

theorem C4_cache_accepts_negative:
  "fst (Cache truncateTransformer New ''-1'' ''morph.testData.0'') = None"
  by (simp add: IntParameterTransformer_Cache_def Atoi_minus_one)

text \<open>
  Claim C4, amended. For \<^verbatim>\<open>truncate\<close> and \<^verbatim>\<open>precision\<close>, the Cache step fails with
  \<^verbatim>\<open>InvalidParameters\<close> exactly when \<^verbatim>\<open>strconv.Atoi\<close> rejects the raw parameter, and
  changes nothing then. An integer it reads, negative or not, is stored under the parameter
  key without error; a negative one makes the Transform step of \<^verbatim>\<open>truncate\<close> fail with
  \<^verbatim>\<open>InvalidParameters\<close>.
\<close>

theorem C4_cache_int_parameter:
  assumes "t = truncateTransformer \<or> t = precisionTransformer"
  shows "(Atoi ps = None \<longrightarrow>
            Cache t c ps key = (Some (newErrorf ErrInvalidParameters [TagPrecision, ps]), c))
       \<and> (\<forall>n. Atoi ps = Some n \<longrightarrow>
            fst (Cache t c ps key) = None
          \<and> (t = truncateTransformer \<longrightarrow> truncateValues (snd (Cache t c ps key)) key = Some n)
          \<and> (t = precisionTransformer \<longrightarrow> precisionValues (snd (Cache t c ps key)) key = Some n)
          \<and> (n < 0 \<longrightarrow>
               Transform X (snd (Cache truncateTransformer c ps key)) truncateTransformer
                 (VString s) (Some key)
               = (Some (newErrorf ErrInvalidParameters []), VString s)))"
  using assms
  by (auto simp: IntParameterTransformer_Cache_def truncateTransform_def)

theorem C4_cache_int_parameter_witness:
  "Cache truncateTransformer New ''baba'' ''k''
     = (Some (newErrorf ErrInvalidParameters [TagPrecision, ''baba'']), New)
   \<and> fst (Cache truncateTransformer New ''-1'' ''k'') = None
   \<and> truncateValues (snd (Cache truncateTransformer New ''-1'' ''k'')) ''k'' = Some (- 1)
   \<and> Transform noExtern (snd (Cache truncateTransformer New ''-1'' ''k'')) truncateTransformer
        (VString ''123456'') (Some ''k'')
      = (Some (newErrorf ErrInvalidParameters []), VString ''123456'')"
  using C4_cache_int_parameter [of truncateTransformer "''baba''" New "''k''" noExtern "''123456''"]
    C4_cache_int_parameter [of truncateTransformer "''-1''" New "''k''" noExtern "''123456''"]
    Atoi_minus_one Atoi_baba
  by simp

section \<open>The entry point\<close>



section \<open>Compiling the keys directive\<close>

lemma buildTags_plain:
  "TagKeys \<notin> set pre \<Longrightarrow> buildEach c pre pk = (Inr ts, c') \<Longrightarrow>
   buildTags c (pre @ allTags) pk =
     (case buildTags c' allTags pk of
        (Inl err, c'') \<Rightarrow> (Inl err, c'')
      | (Inr chain, c'') \<Rightarrow> (Inr (link ts chain), c''))"
proof (induction pre arbitrary: c ts)
  case Nil
  then show ?case by (auto split: prod.splits sum.splits)
next
  case (Cons tg pre)
  from Cons.prems obtain t c1 ts' where
    t: "buildTagCache c tg pk = (Inr t, c1)" and ts': "buildEach c1 pre pk = (Inr ts', c')"
    and ts: "ts = t # ts'"
    by (auto split: prod.splits sum.splits)
  from Cons.prems have "tg \<noteq> TagKeys" "TagKeys \<notin> set pre" by auto
  with Cons.IH [OF _ ts'] t ts show ?case
    by (auto split: prod.splits sum.splits)
qed

lemma buildKeyTags_exit:
  "TagExit \<notin> set ks \<Longrightarrow> buildEach c ks pk = (Inr ts, c') \<Longrightarrow>
   buildKeyTags c (ks @ TagExit # allTags) pk = (Inr (link ts None, TagExit # allTags), c')"
proof (induction ks arbitrary: c ts)
  case Nil
  then show ?case by simp
next
  case (Cons k ks)
  from Cons.prems obtain t c1 ts' where
    t: "buildTagCache c k pk = (Inr t, c1)" and ts': "buildEach c1 ks pk = (Inr ts', c')"
    and ts: "ts = t # ts'"
    by (auto split: prod.splits sum.splits)
  from Cons.prems have "k \<noteq> TagExit" "TagExit \<notin> set ks" by auto
  with Cons.IH [OF _ ts'] t ts show ?case by simp
qed

lemma buildKeyTags_end:
  "TagExit \<notin> set ks \<Longrightarrow> buildEach c ks pk = (Inr ts, c') \<Longrightarrow>
   buildKeyTags c ks pk = (Inr (link ts None, []), c')"
proof (induction ks arbitrary: c ts)
  case Nil
  then show ?case by simp
next
  case (Cons k ks)
  from Cons.prems obtain t c1 ts' where
    t: "buildTagCache c k pk = (Inr t, c1)" and ts': "buildEach c1 ks pk = (Inr ts', c')"
    and ts: "ts = t # ts'"
    by (auto split: prod.splits sum.splits)
  from Cons.prems have "k \<noteq> TagExit" "TagExit \<notin> set ks" by auto
  with Cons.IH [OF _ ts'] t ts show ?case by simp
qed

lemma buildTagCache_keysChain:
  "buildTagCache c tg pk = (Inr t, c') \<Longrightarrow> keysChain t = None \<and> nextTag t = None"
  by (auto simp: buildTagCache_def Let_def split: option.splits if_splits prod.splits)

text \<open>
  Claim C5. Take the tokens of an annotation up to its first \<^verbatim>\<open>keys\<close> token, and let the
  tokens compile. If the tokens after \<^verbatim>\<open>keys\<close> are \<open>ks\<close>, then \<^verbatim>\<open>exit\<close>, then \<open>rest\<close>,
  with no \<^verbatim>\<open>exit\<close> in \<open>ks\<close>, the \<^verbatim>\<open>keys\<close> instruction gets the chain of \<open>ks\<close> as its key
  chain, no instruction is made for that \<^verbatim>\<open>exit\<close>, and the outer chain goes on with the
  chain of \<open>rest\<close>. If they are \<open>ks\<close> with no \<^verbatim>\<open>exit\<close>, not empty, the key chain is the
  chain of \<open>ks\<close> and the outer chain ends with the \<^verbatim>\<open>keys\<close> instruction. If \<^verbatim>\<open>keys\<close> is the
  last token, its key chain is nil.
\<close>

theorem C5_keys_sub_chain:
  assumes pre: "TagKeys \<notin> set pre" "buildEach c pre pk = (Inr ts, c0)"
    and keys: "buildTagCache c0 TagKeys pk = (Inr keysTag, c1)"
    and ks: "TagExit \<notin> set ks" "buildEach c1 ks pk = (Inr keyTags, c2)"
  shows "(FieldsFunc tagsRaw TagSeparator = pre @ TagKeys # ks @ TagExit # rest \<longrightarrow>
           buildTagsCache c tagsRaw pk =
             (case buildTags c2 rest pk of
                (Inl err, c3) \<Rightarrow> (Inl err, c3)
              | (Inr chain, c3) \<Rightarrow>
                  (Inr (link ts (Some (setNext (setKeysChain keysTag (link keyTags None)) chain))), c3)))
       \<and> (FieldsFunc tagsRaw TagSeparator = pre @ TagKeys # ks \<and> ks \<noteq> [] \<longrightarrow>
           buildTagsCache c tagsRaw pk =
             (Inr (link ts (Some (setNext (setKeysChain keysTag (link keyTags None)) None))), c2))
       \<and> (FieldsFunc tagsRaw TagSeparator = pre @ [TagKeys] \<longrightarrow>
           buildTagsCache c tagsRaw pk = (Inr (link ts (Some keysTag)), c1)
         \<and> keysChain keysTag = None)"
proof (intro conjI impI)
  assume "FieldsFunc tagsRaw TagSeparator = pre @ TagKeys # ks @ TagExit # rest"
  with buildTags_plain [OF pre] keys buildKeyTags_exit [OF ks]
  show "buildTagsCache c tagsRaw pk =
             (case buildTags c2 rest pk of
                (Inl err, c3) \<Rightarrow> (Inl err, c3)
              | (Inr chain, c3) \<Rightarrow>
                  (Inr (link ts (Some (setNext (setKeysChain keysTag (link keyTags None)) chain))), c3))"
    by (auto simp: buildTagsCache_def split: prod.splits sum.splits)
next
  assume "FieldsFunc tagsRaw TagSeparator = pre @ TagKeys # ks \<and> ks \<noteq> []"
  with buildTags_plain [OF pre] keys buildKeyTags_end [OF ks]
  show "buildTagsCache c tagsRaw pk =
             (Inr (link ts (Some (setNext (setKeysChain keysTag (link keyTags None)) None))), c2)"
    by (auto simp: buildTagsCache_def split: prod.splits sum.splits)
next
  assume "FieldsFunc tagsRaw TagSeparator = pre @ [TagKeys]"
  with buildTags_plain [OF pre] keys buildTagCache_keysChain [OF keys]
  show "buildTagsCache c tagsRaw pk = (Inr (link ts (Some keysTag)), c1)"
    by (cases keysTag) (auto simp: buildTagsCache_def split: prod.splits sum.splits)
next
  show "keysChain keysTag = None"
    using buildTagCache_keysChain [OF keys] by simp
qed

lemma buildTagCache_New [simp]:
  "buildTagCache New ''dive'' pk = (Inr (TagChainCache ''dive'' [] None None None None), New)"
  "buildTagCache New ''keys'' pk = (Inr (TagChainCache ''keys'' [] None None None None), New)"
  "buildTagCache New ''trim'' pk
     = (Inr (TagChainCache ''trim'' [] None (Some trimTransformer) None None), New)"
  "buildTagCache New ''upper'' pk
     = (Inr (TagChainCache ''upper'' [] None (Some toUpperTransformer) None None), New)"
  by (simp_all add: buildTagCache_def Let_def New_def tag_defs navigationalTags_def
      IndexRune_def ParameterlessTransformer_Cache_def)

theorem C5_keys_sub_chain_witness:
  "FieldsFunc ''dive,keys,trim,exit,upper'' TagSeparator
     = [''dive''] @ TagKeys # [''trim''] @ TagExit # [''upper'']
   \<and> buildTagsCache New ''dive,keys,trim,exit,upper'' ''k'' =
       (Inr (Some (TagChainCache ''dive'' [] None None
          (Some (TagChainCache ''keys'' [] None None
             (Some (TagChainCache ''upper'' [] None (Some toUpperTransformer) None None))
             (Some (TagChainCache ''trim'' [] None (Some trimTransformer) None None))))
          None)), New)"
  using C5_keys_sub_chain [where pre = "[''dive'']" and c = New and pk = "''k''"
      and ts = "[TagChainCache ''dive'' [] None None None None]" and ?c0.0 = New
      and keysTag = "TagChainCache ''keys'' [] None None None None" and ?c1.0 = New
      and ks = "[''trim'']"
      and keyTags = "[TagChainCache ''trim'' [] None (Some trimTransformer) None None]"
      and ?c2.0 = New and tagsRaw = "''dive,keys,trim,exit,upper''" and rest = "[''upper'']"]
  by (simp add: FieldsFunc_def tag_defs)

section \<open>Diving into slices and arrays\<close>

lemma TrimSpace_a: "TrimSpace '' a '' = ''a''"
  by code_simp

text \<open>
  The loop of \<^verbatim>\<open>morphCollection\<close> against the calls it makes: \<open>cs\<close> are the states of the
  morpher before each element and after the last, \<open>ys\<close> what the elements become.
\<close>

lemma morphItems_all:
  "length cs = Suc (length xs) \<Longrightarrow> length ys = length xs \<Longrightarrow> cs ! 0 = c \<Longrightarrow>
   \<forall>i<length xs. mf (cs ! i) (ea, xs ! i) tgs = Some (None, ys ! i, cs ! Suc i) \<Longrightarrow>
   morphItems mf c ea tgs xs = Some (None, ys, cs ! length xs)"
proof (induction xs arbitrary: c cs ys)
  case Nil
  then show ?case by simp
next
  case (Cons x xs)
  from Cons.prems obtain c0 cs' where cs: "cs = c0 # cs'" by (cases cs) auto
  from Cons.prems obtain y ys' where ys: "ys = y # ys'" by (cases ys) auto
  from Cons.prems cs have c0: "c0 = c" by simp
  from Cons.prems(4) have first: "mf (cs ! 0) (ea, (x # xs) ! 0) tgs = Some (None, ys ! 0, cs ! Suc 0)"
    by blast
  have rest: "\<forall>i<length xs. mf (cs' ! i) (ea, xs ! i) tgs = Some (None, ys' ! i, cs' ! Suc i)"
  proof (intro allI impI)
    fix i assume "i < length xs"
    then have "Suc i < length (x # xs)" by simp
    with Cons.prems(4) have "mf (cs ! Suc i) (ea, (x # xs) ! Suc i) tgs
        = Some (None, ys ! Suc i, cs ! Suc (Suc i))" by blast
    then show "mf (cs' ! i) (ea, xs ! i) tgs = Some (None, ys' ! i, cs' ! Suc i)"
      by (simp add: cs ys)
  qed
  from Cons.prems cs ys have "length cs' = Suc (length xs)" "length ys' = length xs" by auto
  from Cons.IH [OF this refl rest]
  have "morphItems mf (cs' ! 0) ea tgs xs = Some (None, ys', cs' ! length xs)" .
  with first show ?case by (simp add: cs ys c0)
qed

lemma morphItems_first_error:
  "i < length xs \<Longrightarrow> length cs = Suc i \<Longrightarrow> length ys = i \<Longrightarrow> cs ! 0 = c \<Longrightarrow>
   \<forall>j<i. mf (cs ! j) (ea, xs ! j) tgs = Some (None, ys ! j, cs ! Suc j) \<Longrightarrow>
   mf (cs ! i) (ea, xs ! i) tgs = Some (Some err, y, c') \<Longrightarrow>
   morphItems mf c ea tgs xs = Some (Some err, ys @ y # drop (Suc i) xs, c')"
proof (induction xs arbitrary: i c cs ys)
  case Nil
  then show ?case by simp
next
  case (Cons x xs)
  show ?case
  proof (cases i)
    case 0
    with Cons.prems show ?thesis by simp
  next
    case (Suc k)
    from Cons.prems Suc obtain c0 cs' where cs: "cs = c0 # cs'" by (cases cs) auto
    from Cons.prems Suc obtain y0 ys' where ys: "ys = y0 # ys'" by (cases ys) auto
    from Cons.prems cs have c0: "c0 = c" by simp
    from Cons.prems(5) Suc
    have first: "mf (cs ! 0) (ea, (x # xs) ! 0) tgs = Some (None, ys ! 0, cs ! Suc 0)"
      by blast
    have rest: "\<forall>j<k. mf (cs' ! j) (ea, xs ! j) tgs = Some (None, ys' ! j, cs' ! Suc j)"
    proof (intro allI impI)
      fix j assume "j < k"
      then have "Suc j < i" by (simp add: Suc)
      with Cons.prems(5) have "mf (cs ! Suc j) (ea, (x # xs) ! Suc j) tgs
          = Some (None, ys ! Suc j, cs ! Suc (Suc j))" by blast
      then show "mf (cs' ! j) (ea, xs ! j) tgs = Some (None, ys' ! j, cs' ! Suc j)"
        by (simp add: cs ys)
    qed
    from Cons.prems Suc cs ys have len: "k < length xs" "length cs' = Suc k" "length ys' = k"
      by auto
    from Cons.prems(6) Suc cs have "mf (cs' ! k) (ea, xs ! k) tgs = Some (Some err, y, c')"
      by simp
    from Cons.IH [OF len refl rest this]
    have "morphItems mf (cs' ! 0) ea tgs xs = Some (Some err, ys' @ y # drop (Suc k) xs, c')" .
    with first show ?thesis by (simp add: cs ys c0 Suc)
  qed
qed

lemma morphFieldBody_dive_collection:
  assumes "getActualValue (a, fieldValue) = (aa, actualValue)"
    and "(actualValue = VSlice xs \<and> ea = True \<and> mk = VSlice)
       \<or> (actualValue = VArray xs \<and> ea = aa \<and> mk = VArray)"
  shows "morphFieldBody mf X c (a, fieldValue) (Some (TagChainCache TagDive ps pk tr nx kc)) =
     (case morphItems mf c ea nx xs of
        None \<Rightarrow> None
      | Some (err, xs', c1) \<Rightarrow> Some (err, putActualValue fieldValue (mk xs'), c1))"
  using assms
  by (auto simp: morphFieldBody_def dive_def morphCollection_def newValue_is_actualValue_def
      split: option.splits)

text \<open>
  Claim C6. Let a field hold, behind its pointers and interfaces, a slice or an array \<open>xs\<close>,
  and let its chain be \<^verbatim>\<open>dive\<close> followed by \<open>nx\<close>. If \<^verbatim>\<open>morphField\<close> with \<open>nx\<close> succeeds on
  the elements one after the other, each from the state the one before left, turning them
  into \<open>ys\<close>, the field succeeds and holds \<open>ys\<close>. If it succeeds on the elements before
  index \<open>i\<close> and fails on element \<open>i\<close> with \<open>err\<close>, leaving \<open>y\<close> there, the field fails with
  \<open>err\<close>, whatever \<^verbatim>\<open>morphField\<close> would do with the later elements; it holds the changed
  elements before \<open>i\<close>, then \<open>y\<close>, then the later elements as they were.
\<close>

theorem C6_dive_collection:
  assumes "getActualValue (a, fieldValue) = (aa, actualValue)"
    and "(actualValue = VSlice xs \<and> ea = True \<and> mk = VSlice)
       \<or> (actualValue = VArray xs \<and> ea = aa \<and> mk = VArray)"
    and "cs ! 0 = c"
  shows "(length cs = Suc (length xs) \<and> length ys = length xs
          \<and> (\<forall>i<length xs.
                morphField n X (cs ! i) (ea, xs ! i) nx = Some (None, ys ! i, cs ! Suc i)) \<longrightarrow>
          morphField (Suc n) X c (a, fieldValue) (Some (TagChainCache TagDive ps pk tr nx kc))
            = Some (None, putActualValue fieldValue (mk ys), cs ! length xs))
       \<and> (i < length xs \<and> length cs = Suc i \<and> length ys = i
          \<and> (\<forall>j<i. morphField n X (cs ! j) (ea, xs ! j) nx = Some (None, ys ! j, cs ! Suc j))
          \<and> morphField n X (cs ! i) (ea, xs ! i) nx = Some (Some err, y, c') \<longrightarrow>
          morphField (Suc n) X c (a, fieldValue) (Some (TagChainCache TagDive ps pk tr nx kc))
            = Some (Some err, putActualValue fieldValue (mk (ys @ y # drop (Suc i) xs)), c'))"
proof (intro conjI impI)
  assume "length cs = Suc (length xs) \<and> length ys = length xs
      \<and> (\<forall>i<length xs.
            morphField n X (cs ! i) (ea, xs ! i) nx = Some (None, ys ! i, cs ! Suc i))"
  then have "morphItems (morphField n X) c ea nx xs = Some (None, ys, cs ! length xs)"
    using assms(3) by (intro morphItems_all) auto
  then show "morphField (Suc n) X c (a, fieldValue) (Some (TagChainCache TagDive ps pk tr nx kc))
            = Some (None, putActualValue fieldValue (mk ys), cs ! length xs)"
    by (simp add: morphFieldBody_dive_collection [OF assms(1,2)])
next
  assume "i < length xs \<and> length cs = Suc i \<and> length ys = i
          \<and> (\<forall>j<i. morphField n X (cs ! j) (ea, xs ! j) nx = Some (None, ys ! j, cs ! Suc j))
          \<and> morphField n X (cs ! i) (ea, xs ! i) nx = Some (Some err, y, c')"
  then have "morphItems (morphField n X) c ea nx xs
      = Some (Some err, ys @ y # drop (Suc i) xs, c')"
    using assms(3) by (intro morphItems_first_error) auto
  then show "morphField (Suc n) X c (a, fieldValue) (Some (TagChainCache TagDive ps pk tr nx kc))
            = Some (Some err, putActualValue fieldValue (mk (ys @ y # drop (Suc i) xs)), c')"
    by (simp add: morphFieldBody_dive_collection [OF assms(1,2)])
qed

lemma morphField_trim_string:
  "morphField (Suc n) X c (True, VString s) trimChain = Some (None, VString (TrimSpace s), c)"
  by (simp add: trimChain_def morphFieldBody_def sharesStorage_def getAssignableValue_def
      newValue_is_actualValue_def trimTransform_def tag_defs)

lemma morphField_trim_int:
  "morphField (Suc n) X c (True, VInt k) trimChain
     = Some (Some (newErrorf ErrUnexpectedValue [TagTrim, ''int'']), VInt k, c)"
  by (simp add: trimChain_def morphFieldBody_def sharesStorage_def getAssignableValue_def
      newValue_is_actualValue_def trimTransform_def tag_defs)

theorem C6_dive_collection_witness:
  "morphField 2 noExtern New (True, VSlice [VString '' a '', VString '' a ''])
       (Some (TagChainCache TagDive [] None None trimChain None))
     = Some (None, VSlice [VString ''a'', VString ''a''], New)
   \<and> morphField 2 noExtern New (True, VSlice [VString '' a '', VInt 5, VString '' a ''])
       (Some (TagChainCache TagDive [] None None trimChain None))
     = Some (Some (newErrorf ErrUnexpectedValue [TagTrim, ''int'']),
         VSlice [VString ''a'', VInt 5, VString '' a ''], New)"
  using C6_dive_collection [where a = True and fieldValue = "VSlice [VString '' a '', VString '' a '']"
      and aa = True and actualValue = "VSlice [VString '' a '', VString '' a '']"
      and xs = "[VString '' a '', VString '' a '']" and ea = True and mk = VSlice
      and cs = "[New, New, New]" and c = New and ys = "[VString ''a'', VString ''a'']"
      and n = 1 and X = noExtern and nx = trimChain and ps = "[]" and pk = None and tr = None
      and kc = None]
    C6_dive_collection [where a = True
      and fieldValue = "VSlice [VString '' a '', VInt 5, VString '' a '']"
      and aa = True and actualValue = "VSlice [VString '' a '', VInt 5, VString '' a '']"
      and xs = "[VString '' a '', VInt 5, VString '' a '']" and ea = True and mk = VSlice
      and cs = "[New, New]" and c = New and ys = "[VString ''a'']" and i = 1 and y = "VInt 5"
      and c' = New and err = "newErrorf ErrUnexpectedValue [TagTrim, ''int'']"
      and n = 1 and X = noExtern and nx = trimChain and ps = "[]" and pk = None and tr = None
      and kc = None]
    morphField_trim_string [of 0 noExtern New "'' a ''"] morphField_trim_int [of 0 noExtern New 5]
    TrimSpace_a
  by (simp add: numeral_2_eq_2 less_Suc_eq nth_Cons')

section \<open>The working value and the field\<close>








section \<open>Renaming the keys of a map\<close>









lemma morphField_no_chain:
  "morphField (Suc n) X c (True, VString s) None = Some (None, VString s, c)"
  by (simp add: morphFieldBody_def sharesStorage_def getAssignableValue_def
      newValue_is_actualValue_def)



section \<open>The key of the descriptor cache\<close>

lemma showNat_0: "showNat 0 = ''0''"
  by code_simp

lemma buildTagCache_trim:
  "buildTagCache New ''trim'' pk
     = (Inr (TagChainCache ''trim'' [] None (Some trimTransformer) None None), New)"
  by (simp add: buildTagCache_def Let_def New_def tag_defs navigationalTags_def
      IndexRune_def ParameterlessTransformer_Cache_def)

lemma tagName_New: "tagName New = ''morph''"
  by (simp add: New_def tag_defs)

lemma buildStructCache_anonA: "buildStructCache New anonA = (Inr descA, New)"
  by (simp add: buildStructCache_def anonA_def descA_def tagGet_def getParamsKey_def showNat_0
      buildTagsCache_def FieldsFunc_def buildTagCache_trim tagName_New tag_defs)

lemma buildStructCache_anonB: "buildStructCache New anonB = (Inr descB, New)"
  by (simp add: buildStructCache_def anonB_def descB_def tagGet_def tagName_New tag_defs)

lemma buildStructCache_anonOuter: "buildStructCache New anonOuter = (Inr descOuter, New)"
  by (simp add: buildStructCache_def anonOuter_def descOuter_def tagGet_def tagName_New tag_defs)

lemma cacheKey_anon:
    "cacheKey anonA = ''/''" "cacheKey anonB = ''/''" "cacheKey anonOuter = ''/''"
    "cacheKey anonInner = ''/''"
  by (simp_all add: cacheKey_def anonA_def anonB_def anonOuter_def anonInner_def)

lemma structsCache_New: "structsCache New = Map.empty"
  by (simp add: New_def)

lemma morphField_trim_head:
  "morphField (Suc n) X c (True, VString s)
     (Some (TagChainCache TagTrim ps pk (Some trimTransformer) None kc))
   = Some (None, VString (TrimSpace s), c)"
  by (simp add: morphFieldBody_def sharesStorage_def getAssignableValue_def
      newValue_is_actualValue_def trimTransform_def tag_defs)

text \<open>
  Claim C2 against the code. Two struct types without a name have the same cache key.
  One morpher processes a record of the first, whose field is annotated \<^verbatim>\<open>trim\<close>, and
  caches its descriptor; for a record of the second, whose field has no annotation, it
  then finds that descriptor, not the one built from the second type, and trims the field.
\<close>

theorem C2_descriptor_of_another_shape:
  "anonA \<noteq> anonB \<and> cacheKey anonA = cacheKey anonB
   \<and> buildStructCache New anonA = (Inr descA, New)
   \<and> buildStructCache New anonB = (Inr descB, New)
   \<and> Struct 1 noExtern New (Some (VPtr (VStruct anonA [VString '' a ''])))
     = Some (None, Some (VPtr (VStruct anonA [VString ''a''])),
         New\<lparr>structsCache := [''/'' \<mapsto> descA]\<rparr>)
   \<and> getStructCache (New\<lparr>structsCache := [''/'' \<mapsto> descA]\<rparr>) anonB
     = (Inr descA, New\<lparr>structsCache := [''/'' \<mapsto> descA]\<rparr>)
   \<and> Struct 1 noExtern (New\<lparr>structsCache := [''/'' \<mapsto> descA]\<rparr>)
       (Some (VPtr (VStruct anonB [VString '' a ''])))
     = Some (None, Some (VPtr (VStruct anonB [VString ''a''])),
         New\<lparr>structsCache := [''/'' \<mapsto> descA]\<rparr>)"
  using morphField_trim_head [of 0 noExtern]
  apply (intro conjI)
        apply (simp add: anonA_def anonB_def)
       apply (simp add: cacheKey_anon)
      apply (rule buildStructCache_anonA)
     apply (rule buildStructCache_anonB)
    apply (simp add: Struct_def morphStruct_def getStructCache_def cacheKey_anon
      structsCache_New buildStructCache_anonA descA_def TrimSpace_a)
   apply (simp add: getStructCache_def cacheKey_anon)
  apply (simp add: Struct_def morphStruct_def getStructCache_def cacheKey_anon descA_def
      TrimSpace_a)
  done

section \<open>Records without annotations\<close>

text \<open>
  Claim C7 against the code. No field of the record or of the record inside it has an
  annotation. Both struct types are without a name and share a cache key, so the inner
  record is walked with the descriptor of the outer one, which lists two fields: the
  second access is out of range.
\<close>

theorem C7_unannotated_record_panics:
  "tagGet (Tag (Fields anonOuter ! 0)) DefaultTag = [] \<and> tagGet (Tag (Fields anonOuter ! 1)) DefaultTag = []
   \<and> tagGet (Tag (Fields anonInner ! 0)) DefaultTag = []
   \<and> Struct 2 noExtern New
       (Some (VPtr (VStruct anonOuter [VStruct anonInner [VString ''x''], VString ''b''])))
     = Some (Some (Panic ''reflect: Field index out of range''),
         Some (VPtr (VStruct anonOuter [VStruct anonInner [VString ''x''], VString ''b''])),
         New\<lparr>structsCache := [''/'' \<mapsto> descOuter]\<rparr>)"
  using morphField_no_chain [of 0 noExtern]
  apply (intro conjI)
     apply (simp add: anonOuter_def tagGet_def)
    apply (simp add: anonOuter_def tagGet_def)
   apply (simp add: anonInner_def tagGet_def)
  apply (simp add: numeral_2_eq_2 Struct_def morphStruct_def getStructCache_def cacheKey_anon
      structsCache_New buildStructCache_anonOuter descOuter_def morphFieldBody_def)
  done

end
